theory Spec2Isabelle
  imports
    Main
    "HOL-Library.Word"
    "HOL-Library.Char_ord"
    "HOL-Library.List_Lexorder"
    "HOL-Library.Sublist"
begin

unbundle bit_operations_syntax

section \<open>The AliCloud OSS binding (bindings/alicloud/oss/oss.go)\<close>

text \<open>
  The binding is a thin adapter between an invocation request and the calls of the
  object storage SDK. The embedding keeps the four handlers as they are written and makes
  everything around them explicit:
  \<^item> Go strings and byte slices are \<open>string\<close> (a list of 8-bit characters);
  \<^item> a Go \<open>map[string]string\<close> is an association list, whose order stands for the
    order in which a \<open>range\<close> loop visits the entries; a lookup is \<open>map_of\<close>;
  \<^item> the SDK, the identifier generator and the text layer of the JSON library are outside
    the repository: their answers are the fields of a record \<open>library\<close>, any answers;
  \<^item> every call that leaves the binding is recorded in a trace of events, in call order,
    so that "no call was made" and "the body was closed" are statements about the trace;
  \<^item> a handler either returns (an error or a response) or panics, as Go does when a nil
    pointer or a nil interface is used.
\<close>

subsection \<open>Errors, handles, events\<close>

type_synonym bytes = string

text \<open>
  \<open>ServiceError\<close> is the SDK's \<open>oss.ServiceError\<close> with the two fields the binding
  reads; \<open>OtherError\<close> is any other error value of a library; \<open>UnmarshalTypeError\<close> and
  \<open>SyntaxError\<close> are those of \<open>encoding/json\<close>. \<open>Errorf t None\<close> is
  \<open>fmt.Errorf\<close> of a message without cause, \<open>Errorf t (Some e)\<close> is
  \<open>fmt.Errorf(t + "%w", e)\<close>: the message is \<open>t\<close> followed by the message of
  \<open>e\<close>, and \<open>e\<close> is what \<open>errors.Unwrap\<close> gives.
\<close>

datatype error =
    ServiceError (StatusCode: int) (Code: string)
  | OtherError string
  | SyntaxError string
  | UnmarshalTypeError string string
  | Errorf (errText: string) (Unwrap: "error option")

datatype client = ClientHandle nat
datatype bucket = BucketHandle nat
datatype body = BodyHandle nat
datatype ListObjectsResult = ListingHandle nat

datatype oss_Option =
    oss_Meta string string
  | oss_Prefix string
  | oss_Marker string
  | oss_MaxKeys int
  | oss_Delimiter string

datatype event =
    Call_uuid_New
  | Call_Debugf string
  | Call_Bucket client string
  | Call_PutObject bucket string bytes "oss_Option list"
  | Call_GetObject bucket string
  | Call_ReadAll body
  | Call_Close body
  | Call_GetObjectDetailedMeta bucket string
  | Call_DeleteObject bucket string
  | Call_ListObjects bucket "oss_Option list"

datatype 'a outcome = Returned 'a | Panicked

subsection \<open>JSON values\<close>

text \<open>
  A JSON document as \<open>encoding/json\<close> sees it after scanning: an object keeps its
  members in document order, duplicates included, and a number keeps its literal.
\<close>

datatype json =
    JNull
  | JBool bool
  | JNumber string
  | JString string
  | JArray "json list"
  | JObject "(string \<times> json) list"

subsection \<open>The records of the binding\<close>

record ossMetadata =
  Endpoint :: string
  AccessKeyID :: string
  AccessKey :: string
  Bucket :: string

record listPayload =
  Marker :: string
  Prefix :: string
  MaxKeys :: "32 word"
  Delimiter :: string

record AliCloudOSS =
  metadata :: "ossMetadata option"
  client :: "client option"
  logger :: "unit option"

record InvokeRequest =
  Data :: bytes
  Metadata :: "(string \<times> string) list"
  Operation :: string

record InvokeResponse =
  RespData :: bytes
  RespMetadata :: "(string \<times> string) list"

text \<open>
  What the world outside the binding answers. \<open>bucket_GetObject\<close> has the SDK's Go
  signature \<open>(io.ReadCloser, error)\<close>: a body that may be nil and an error that may be nil.
  \<open>json_scan\<close> is the syntax layer of \<open>json.Unmarshal\<close> (text to value, or a syntax
  error); \<open>json_Marshal_ListObjectsResult\<close> is \<open>json.Marshal\<close> on the SDK's listing
  result. \<open>uuid_New\<close> is the sixteen random bytes that \<open>uuid.New()\<close> draws. An
  environment is what the world answers during one invocation: another invocation has
  its own environment, and so its own draw.
\<close>

record library =
  oss_New :: "string \<Rightarrow> string \<Rightarrow> string \<Rightarrow> error + client"
  client_Bucket :: "client \<Rightarrow> string \<Rightarrow> error + bucket"
  bucket_PutObject :: "bucket \<Rightarrow> string \<Rightarrow> bytes \<Rightarrow> oss_Option list \<Rightarrow> error option"
  bucket_GetObject :: "bucket \<Rightarrow> string \<Rightarrow> body option \<times> error option"
  ioutil_ReadAll :: "body \<Rightarrow> error + bytes"
  bucket_GetObjectDetailedMeta :: "bucket \<Rightarrow> string \<Rightarrow> error + (string \<times> string list) list"
  bucket_DeleteObject :: "bucket \<Rightarrow> string \<Rightarrow> error option"
  bucket_ListObjects :: "bucket \<Rightarrow> oss_Option list \<Rightarrow> error + ListObjectsResult"
  json_Marshal_ListObjectsResult :: "ListObjectsResult \<Rightarrow> error + bytes"
  json_scan :: "bytes \<Rightarrow> error + json"
  uuid_New :: "8 word list"

subsection \<open>Constants\<close>

definition metadataKey :: string where
  "metadataKey = ''key''"

definition maxKeys :: "32 word" where
  "maxKeys = 1000"

text \<open>
  Modelled from the spec: the operation kinds of package \<open>bindings\<close>
  (\<open>bindings.CreateOperation\<close> and its three siblings) are declared outside the two source
  files; the spec names the operations create, get, delete and list.
\<close>

definition CreateOperation :: string where
  "CreateOperation = ''create''"

definition GetOperation :: string where
  "GetOperation = ''get''"

definition DeleteOperation :: string where
  "DeleteOperation = ''delete''"

definition ListOperation :: string where
  "ListOperation = ''list''"

definition NewAliCloudOSS :: "unit option \<Rightarrow> AliCloudOSS" where
  "NewAliCloudOSS lg = \<lparr>metadata = None, client = None, logger = lg\<rparr>"

definition emptyResponse :: InvokeResponse where
  "emptyResponse = \<lparr>RespData = [], RespMetadata = []\<rparr>"

text \<open>Go's \<open>val, ok := m[k]\<close>: the zero value and \<open>false\<close> when the key is missing.\<close>

definition lookup :: "(string \<times> string) list \<Rightarrow> string \<Rightarrow> string \<times> bool" where
  "lookup m k = (case map_of m k of None \<Rightarrow> ('''', False) | Some v \<Rightarrow> (v, True))"

text \<open>\<open>strings.Join\<close>.\<close>

fun Join :: "string list \<Rightarrow> string \<Rightarrow> string" where
  "Join [] sep = []"
| "Join [x] sep = x"
| "Join (x # y # ys) sep = x @ sep @ Join (y # ys) sep"

subsection \<open>The identifier generator\<close>

text \<open>
  Modelled from the spec: the identifier generation utility (\<open>uuid.New().String()\<close> in
  \<open>create\<close>) is not among the sources; the spec calls its result a fresh random unique
  identifier that is never empty. The model renders the sixteen bytes drawn by the
  environment in the canonical 8-4-4-4-12 hexadecimal form of a UUID. Which bytes are
  drawn is the generator's matter: the model puts no condition on them.
\<close>

definition hextable :: string where
  "hextable = ''0123456789abcdef''"

definition hex_Encode :: "8 word list \<Rightarrow> string" where
  "hex_Encode src =
     concat (map (\<lambda>v. [hextable ! unat (drop_bit 4 v), hextable ! unat (v AND 0x0f)]) src)"

definition uuid_String :: "8 word list \<Rightarrow> string" where
  "uuid_String u =
     hex_Encode (take 4 u) @ ''-'' @
     hex_Encode (take 2 (drop 4 u)) @ ''-'' @
     hex_Encode (take 2 (drop 6 u)) @ ''-'' @
     hex_Encode (take 2 (drop 8 u)) @ ''-'' @
     hex_Encode (drop 10 u)"

subsection \<open>The handlers\<close>

text \<open>
  \<open>s.client.Bucket(s.metadata.Bucket)\<close>: a nil \<open>client\<close> or a nil \<open>metadata\<close> is a nil
  pointer dereference. The result is the bucket or the SDK's error, and the event.
\<close>

definition getBucket :: "library \<Rightarrow> AliCloudOSS \<Rightarrow> ((error + bucket) \<times> event list) option" where
  "getBucket lib s =
     (case (client s, metadata s) of
        (Some c, Some m) \<Rightarrow> Some (client_Bucket lib c (Bucket m), [Call_Bucket c (Bucket m)])
      | _ \<Rightarrow> None)"

text \<open>
  The part of \<open>create\<close> after the key is chosen (lines 103 to 121); \<open>tr0\<close> is the
  trace so far.
\<close>

definition create_put ::
  "library \<Rightarrow> AliCloudOSS \<Rightarrow> InvokeRequest \<Rightarrow> string \<Rightarrow> event list \<Rightarrow>
   (error + InvokeResponse) outcome \<times> event list" where
  "create_put lib s req key tr0 =
     (case getBucket lib s of
        None \<Rightarrow> (Panicked, tr0)
      | Some (Inl err, tr1) \<Rightarrow>
          (Returned (Inl (Errorf
             ''alicloud oss binding error: error getting bucket failed : '' (Some err))),
           tr0 @ tr1)
      | Some (Inr bucket, tr1) \<Rightarrow>
          (let options = map (\<lambda>(k, v). oss_Meta k v)
                           (filter (\<lambda>(k, v). k \<noteq> ''key'') (Metadata req));
               tr2 = tr0 @ tr1 @ [Call_PutObject bucket key (Data req) options]
           in case bucket_PutObject lib bucket key (Data req) options of
                Some err \<Rightarrow>
                  (Returned (Inl (Errorf
                     ''alicloud oss binding error: error putting object '' (Some err))),
                   tr2)
              | None \<Rightarrow> (Returned (Inr emptyResponse), tr2)))"

text \<open>
  \<open>create\<close>: the key of the request, or a generated one, which is logged; a nil
  \<open>logger\<close> panics there.
\<close>

definition create ::
  "library \<Rightarrow> AliCloudOSS \<Rightarrow> InvokeRequest \<Rightarrow> (error + InvokeResponse) outcome \<times> event list" where
  "create lib s req =
     (let (val, ok) = lookup (Metadata req) metadataKey
      in if ok \<and> val \<noteq> '''' then create_put lib s req val []
         else
           (let key = uuid_String (uuid_New lib)
            in case logger s of
                 None \<Rightarrow> (Panicked, [Call_uuid_New])
               | Some lg \<Rightarrow>
                   create_put lib s req key
                     [Call_uuid_New, Call_Debugf (''key not found. generating key '' @ key)]))"

text \<open>
  The part of \<open>get\<close> from \<open>defer body.Close()\<close> on (lines 147 to 167). Evaluating
  \<open>body.Close\<close> on a nil interface panics. The deferred call runs when the function
  leaves, so its event is the last one on each path.
\<close>

definition get_body ::
  "library \<Rightarrow> bucket \<Rightarrow> string \<Rightarrow> body option \<Rightarrow> event list \<Rightarrow>
   (error + InvokeResponse) outcome \<times> event list" where
  "get_body lib bucket key body tr =
     (case body of
        None \<Rightarrow> (Panicked, tr)
      | Some b \<Rightarrow>
          (case ioutil_ReadAll lib b of
             Inl err \<Rightarrow>
               (Returned (Inl (Errorf
                  ''alicloud oss binding error: error reading object : '' (Some err))),
                tr @ [Call_ReadAll b, Call_Close b])
           | Inr data \<Rightarrow>
               (case bucket_GetObjectDetailedMeta lib bucket key of
                  Inl err \<Rightarrow>
                    (Returned (Inl (Errorf
                       ''alicloud oss binding error: error reading metadata : '' (Some err))),
                     tr @ [Call_ReadAll b, Call_GetObjectDetailedMeta bucket key, Call_Close b])
                | Inr meta \<Rightarrow>
                    (Returned (Inr \<lparr>RespData = data,
                                    RespMetadata = map (\<lambda>(k, v). (k, Join v '' '')) meta\<rparr>),
                     tr @ [Call_ReadAll b, Call_GetObjectDetailedMeta bucket key,
                           Call_Close b]))))"

definition get ::
  "library \<Rightarrow> AliCloudOSS \<Rightarrow> InvokeRequest \<Rightarrow> (error + InvokeResponse) outcome \<times> event list" where
  "get lib s req =
     (let (val, ok) = lookup (Metadata req) metadataKey
      in if \<not> (ok \<and> val \<noteq> '''')
         then (Returned (Inl (Errorf
                 ''alicloud oss binding error: can't read key value'' None)), [])
         else
           (let key = val
            in case getBucket lib s of
                 None \<Rightarrow> (Panicked, [])
               | Some (Inl err, tr1) \<Rightarrow>
                   (Returned (Inl (Errorf
                      ''alicloud oss binding error: error getting bucket : '' (Some err))), tr1)
               | Some (Inr bucket, tr1) \<Rightarrow>
                   (let (body, err) = bucket_GetObject lib bucket key;
                        tr2 = tr1 @ [Call_GetObject bucket key]
                    in case err of
                         None \<Rightarrow> get_body lib bucket key body tr2
                       | Some (ServiceError sc code) \<Rightarrow>
                           if sc = 404 \<and> code = ''NoSuchKey''
                           then (Returned (Inr emptyResponse), tr2)
                           else get_body lib bucket key body tr2
                       | Some e \<Rightarrow>
                           (Returned (Inl (Errorf
                              ''alicloud oss binding error: error getting object : ''
                              (Some e))), tr2))))"

definition delete ::
  "library \<Rightarrow> AliCloudOSS \<Rightarrow> InvokeRequest \<Rightarrow> (error + InvokeResponse) outcome \<times> event list" where
  "delete lib s req =
     (let (val, ok) = lookup (Metadata req) metadataKey
      in if \<not> (ok \<and> val \<noteq> '''')
         then (Returned (Inl (Errorf
                 ''alicloud oss binding error: can't read key value'' None)), [])
         else
           (let key = val
            in case getBucket lib s of
                 None \<Rightarrow> (Panicked, [])
               | Some (Inl err, tr1) \<Rightarrow>
                   (Returned (Inl (Errorf
                      ''alicloud oss binding error: error getting bucket : '' (Some err))), tr1)
               | Some (Inr bucket, tr1) \<Rightarrow>
                   (let tr2 = tr1 @ [Call_DeleteObject bucket key]
                    in case bucket_DeleteObject lib bucket key of
                         Some err \<Rightarrow>
                           (Returned (Inl (Errorf
                              ''alicloud oss binding error: error deleting : '' (Some err))),
                            tr2)
                       | None \<Rightarrow> (Returned (Inr emptyResponse), tr2))))"

subsection \<open>The JSON library, as far as the binding uses it\<close>

text \<open>
  \<open>encoding/json\<close> is Go's standard library. The binding uses it in two places: to turn
  the property map into an \<open>ossMetadata\<close> (marshal, then unmarshal), and to read the list
  query out of the request data. The model follows the library's decoder on values:
  which member of an object goes to which field, what a missing member leaves, and which
  values a field refuses. A text is handled by \<open>json_scan\<close> of the environment.

  A Go string need not be valid UTF-8. \<open>json.Marshal\<close> writes each byte that does not
  start a valid encoding as the replacement character U+FFFD; every other string comes
  back from the text unchanged. \<open>runeSize\<close> is the size \<open>utf8.DecodeRune\<close> reports,
  \<open>None\<close> standing for its answer \<open>(RuneError, 1)\<close>.
\<close>

definition inRange :: "nat \<Rightarrow> nat \<Rightarrow> char \<Rightarrow> bool" where
  "inRange lo hi c \<longleftrightarrow> lo \<le> of_char c \<and> of_char c \<le> hi"

definition continuation :: "nat \<Rightarrow> nat \<Rightarrow> nat \<Rightarrow> string \<Rightarrow> bool" where
  "continuation lo hi n cs =
     (case cs of
        [] \<Rightarrow> False
      | c # rest \<Rightarrow> inRange lo hi c \<and> n \<le> length rest \<and> list_all (inRange 0x80 0xBF) (take n rest))"

definition runeSize :: "string \<Rightarrow> nat option" where
  "runeSize s =
     (case s of
        [] \<Rightarrow> None
      | c # cs \<Rightarrow>
          (let x = (of_char c :: nat) in
           if x < 0x80 then Some 1
           else if 0xC2 \<le> x \<and> x \<le> 0xDF then (if continuation 0x80 0xBF 0 cs then Some 2 else None)
           else if x = 0xE0 then (if continuation 0xA0 0xBF 1 cs then Some 3 else None)
           else if x = 0xED then (if continuation 0x80 0x9F 1 cs then Some 3 else None)
           else if 0xE1 \<le> x \<and> x \<le> 0xEF then (if continuation 0x80 0xBF 1 cs then Some 3 else None)
           else if x = 0xF0 then (if continuation 0x90 0xBF 2 cs then Some 4 else None)
           else if 0xF1 \<le> x \<and> x \<le> 0xF3 then (if continuation 0x80 0xBF 2 cs then Some 4 else None)
           else if x = 0xF4 then (if continuation 0x80 0x8F 2 cs then Some 4 else None)
           else None))"

definition replacementChar :: string where
  "replacementChar = [CHR 0xEF, CHR 0xBF, CHR 0xBD]"

fun coerceUTF8 :: "string \<Rightarrow> string" where
  "coerceUTF8 [] = []"
| "coerceUTF8 (c # cs) =
     (case runeSize (c # cs) of
        None \<Rightarrow> replacementChar @ coerceUTF8 cs
      | Some n \<Rightarrow> c # take (n - 1) cs @ coerceUTF8 (drop (n - 1) cs))"

text \<open>\<open>utf8.ValidString\<close>: every byte belongs to a valid encoding.\<close>

fun ValidString :: "string \<Rightarrow> bool" where
  "ValidString [] = True"
| "ValidString (c # cs) =
     (case runeSize (c # cs) of
        None \<Rightarrow> False
      | Some n \<Rightarrow> ValidString (drop (n - 1) cs))"

text \<open>
  \<open>json.Marshal\<close> on a \<open>map[string]string\<close>: an object whose members are sorted by
  key (the keys compared as Go compares strings, byte by byte). It has no error case. (A nil
  map is written as \<open>null\<close>, which decodes to the same zero struct as the empty object.)
\<close>

definition json_Marshal_Properties :: "(string \<times> string) list \<Rightarrow> error + json" where
  "json_Marshal_Properties props =
     Inr (JObject (map (\<lambda>(k, v). (coerceUTF8 k, JString (coerceUTF8 v))) (sort_key fst props)))"

text \<open>
  The decoder matches a member's key to a field name exactly or, failing that, to the
  first field whose name is equal to it under case folding. For the field names of this
  binding the library's folding functions come to \<open>equalFoldRight\<close>: an ASCII letter
  matches itself in either case, \<open>s\<close> also matches U+017F (long s) and \<open>k\<close> also
  matches U+212A (Kelvin sign), every other byte matches only itself.
\<close>

definition caseMask :: "char \<Rightarrow> 8 word" where
  "caseMask c = of_char c AND 0xDF"

definition smallLongEss :: string where
  "smallLongEss = [CHR 0xC5, CHR 0xBF]"

definition kelvin :: string where
  "kelvin = [CHR 0xE2, CHR 0x84, CHR 0xAA]"

fun equalFoldRight :: "string \<Rightarrow> string \<Rightarrow> bool" where
  "equalFoldRight [] t = (t = [])"
| "equalFoldRight (sb # s) [] = False"
| "equalFoldRight (sb # s) (tb # t) =
     (if (of_char tb :: nat) < 0x80 then
        (if sb \<noteq> tb then
           (let sbUpper = caseMask sb in
            if 0x41 \<le> sbUpper \<and> sbUpper \<le> 0x5A
            then (if sbUpper \<noteq> caseMask tb then False else equalFoldRight s t)
            else False)
         else equalFoldRight s t)
      else if sb = CHR ''s'' \<or> sb = CHR ''S'' then
        (if take 2 (tb # t) = smallLongEss then equalFoldRight s (drop 1 t) else False)
      else if sb = CHR ''k'' \<or> sb = CHR ''K'' then
        (if take 3 (tb # t) = kelvin then equalFoldRight s (drop 2 t) else False)
      else False)"

definition findField :: "string list \<Rightarrow> string \<Rightarrow> string option" where
  "findField names key =
     (if key \<in> set names then Some key else find (\<lambda>name. equalFoldRight name key) names)"

text \<open>
  \<open>strconv.ParseInt(s, 10, 64)\<close>: an optional sign, then decimal digits; \<open>None\<close> for a
  syntax error and for a value outside 64 bits.
\<close>

definition isDigit :: "char \<Rightarrow> bool" where
  "isDigit c \<longleftrightarrow> (48::nat) \<le> of_char c \<and> of_char c \<le> (57::nat)"

definition ParseUint :: "string \<Rightarrow> nat option" where
  "ParseUint s =
     (if s = [] \<or> \<not> list_all isDigit s then None
      else (let un = foldl (\<lambda>n c. n * 10 + (of_char c - 48)) 0 s
            in if un < 2 ^ 64 then Some un else None))"

definition ParseInt :: "string \<Rightarrow> int option" where
  "ParseInt s =
     (if s = [] then None
      else (let neg = (hd s = CHR ''-'');
                s' = (if hd s = CHR ''+'' \<or> hd s = CHR ''-'' then tl s else s)
            in case ParseUint s' of
                 None \<Rightarrow> None
               | Some un \<Rightarrow>
                   if \<not> neg \<and> un \<ge> 2 ^ 63 then None
                   else if neg \<and> un > 2 ^ 63 then None
                   else Some (if neg then - int un else int un)))"

text \<open>
  What a value does to a string field and to an \<open>int32\<close> field: \<open>Inr (Some x)\<close> sets
  the field, \<open>Inr None\<close> leaves it (JSON null), \<open>Inl\<close> is the type error that the decoder
  saves while it goes on.
\<close>

fun literalString :: "json \<Rightarrow> error + string option" where
  "literalString JNull = Inr None"
| "literalString (JBool b) = Inl (UnmarshalTypeError ''bool'' ''string'')"
| "literalString (JNumber lit) = Inl (UnmarshalTypeError ''number'' ''string'')"
| "literalString (JString s) = Inr (Some s)"
| "literalString (JArray xs) = Inl (UnmarshalTypeError ''array'' ''string'')"
| "literalString (JObject kvs) = Inl (UnmarshalTypeError ''object'' ''string'')"

fun literalInt32 :: "json \<Rightarrow> error + 32 word option" where
  "literalInt32 JNull = Inr None"
| "literalInt32 (JBool b) = Inl (UnmarshalTypeError ''bool'' ''int32'')"
| "literalInt32 (JNumber lit) =
     (case ParseInt lit of
        None \<Rightarrow> Inl (UnmarshalTypeError (''number '' @ lit) ''int32'')
      | Some n \<Rightarrow>
          if n < - (2 ^ 31) \<or> 2 ^ 31 \<le> n
          then Inl (UnmarshalTypeError (''number '' @ lit) ''int32'')
          else Inr (Some (word_of_int n)))"
| "literalInt32 (JString s) = Inl (UnmarshalTypeError ''string'' ''int32'')"
| "literalInt32 (JArray xs) = Inl (UnmarshalTypeError ''array'' ''int32'')"
| "literalInt32 (JObject kvs) = Inl (UnmarshalTypeError ''object'' ''int32'')"

text \<open>
  The decoder's loop over the members of an object, for a struct given by its field names
  and by what storing a value in a named field does. The first error is the one kept.
\<close>

fun object ::
  "string list \<Rightarrow> (string \<Rightarrow> json \<Rightarrow> 'a \<Rightarrow> error + 'a) \<Rightarrow> (string \<times> json) list \<Rightarrow>
   'a \<times> error option \<Rightarrow> 'a \<times> error option" where
  "object names store [] st = st"
| "object names store ((key, val) # kvs) (v, savedError) =
     (case findField names key of
        None \<Rightarrow> object names store kvs (v, savedError)
      | Some f \<Rightarrow>
          (case store f val v of
             Inl err \<Rightarrow>
               object names store kvs
                 (v, (case savedError of None \<Rightarrow> Some err | Some e \<Rightarrow> Some e))
           | Inr v' \<Rightarrow> object names store kvs (v', savedError)))"

definition Unmarshal_struct ::
  "string list \<Rightarrow> (string \<Rightarrow> json \<Rightarrow> 'a \<Rightarrow> error + 'a) \<Rightarrow> string \<Rightarrow> 'a \<Rightarrow> json \<Rightarrow> error + 'a" where
  "Unmarshal_struct names store tname zero j =
     (case j of
        JNull \<Rightarrow> Inr zero
      | JBool b \<Rightarrow> Inl (UnmarshalTypeError ''bool'' tname)
      | JNumber lit \<Rightarrow> Inl (UnmarshalTypeError ''number'' tname)
      | JString s \<Rightarrow> Inl (UnmarshalTypeError ''string'' tname)
      | JArray xs \<Rightarrow> Inl (UnmarshalTypeError ''array'' tname)
      | JObject kvs \<Rightarrow>
          (case object names store kvs (zero, None) of
             (v, None) \<Rightarrow> Inr v
           | (v, Some err) \<Rightarrow> Inl err))"

text \<open>The two structs of the binding with their \<open>json\<close> tags.\<close>

definition ossMetadata_fields :: "string list" where
  "ossMetadata_fields = [''endpoint'', ''accessKeyID'', ''accessKey'', ''bucket'']"

definition ossMetadata_zero :: ossMetadata where
  "ossMetadata_zero = \<lparr>Endpoint = '''', AccessKeyID = '''', AccessKey = '''', Bucket = ''''\<rparr>"

definition ossMetadata_set :: "string \<Rightarrow> string \<Rightarrow> ossMetadata \<Rightarrow> ossMetadata" where
  "ossMetadata_set f x m =
     (if f = ''endpoint'' then m\<lparr>Endpoint := x\<rparr>
      else if f = ''accessKeyID'' then m\<lparr>AccessKeyID := x\<rparr>
      else if f = ''accessKey'' then m\<lparr>AccessKey := x\<rparr>
      else if f = ''bucket'' then m\<lparr>Bucket := x\<rparr>
      else m)"

definition ossMetadata_store :: "string \<Rightarrow> json \<Rightarrow> ossMetadata \<Rightarrow> error + ossMetadata" where
  "ossMetadata_store f val m =
     (case literalString val of
        Inl err \<Rightarrow> Inl err
      | Inr None \<Rightarrow> Inr m
      | Inr (Some x) \<Rightarrow> Inr (ossMetadata_set f x m))"

definition json_Unmarshal_ossMetadata :: "json \<Rightarrow> error + ossMetadata" where
  "json_Unmarshal_ossMetadata =
     Unmarshal_struct ossMetadata_fields ossMetadata_store ''oss.ossMetadata'' ossMetadata_zero"

definition listPayload_fields :: "string list" where
  "listPayload_fields = [''marker'', ''prefix'', ''maxkeys'', ''delimiter'']"

definition listPayload_zero :: listPayload where
  "listPayload_zero = \<lparr>Marker = '''', Prefix = '''', MaxKeys = 0, Delimiter = ''''\<rparr>"

definition listPayload_store :: "string \<Rightarrow> json \<Rightarrow> listPayload \<Rightarrow> error + listPayload" where
  "listPayload_store f val p =
     (if f = ''maxkeys'' then
        (case literalInt32 val of
           Inl err \<Rightarrow> Inl err
         | Inr None \<Rightarrow> Inr p
         | Inr (Some n) \<Rightarrow> Inr (p\<lparr>MaxKeys := n\<rparr>))
      else
        (case literalString val of
           Inl err \<Rightarrow> Inl err
         | Inr None \<Rightarrow> Inr p
         | Inr (Some x) \<Rightarrow>
             Inr (if f = ''marker'' then p\<lparr>Marker := x\<rparr>
                  else if f = ''prefix'' then p\<lparr>Prefix := x\<rparr>
                  else if f = ''delimiter'' then p\<lparr>Delimiter := x\<rparr>
                  else p)))"

definition json_Unmarshal_listPayload :: "library \<Rightarrow> bytes \<Rightarrow> error + listPayload" where
  "json_Unmarshal_listPayload lib data =
     (case json_scan lib data of
        Inl err \<Rightarrow> Inl err
      | Inr j \<Rightarrow>
          Unmarshal_struct listPayload_fields listPayload_store ''oss.listPayload''
            listPayload_zero j)"

subsection \<open>List, configuration, initialization, dispatch\<close>

definition list ::
  "library \<Rightarrow> AliCloudOSS \<Rightarrow> InvokeRequest \<Rightarrow> (error + InvokeResponse) outcome \<times> event list" where
  "list lib s req =
     (case getBucket lib s of
        None \<Rightarrow> (Panicked, [])
      | Some (Inl err, tr1) \<Rightarrow>
          (Returned (Inl (Errorf
             ''alicloud oss binding error: error getting bucket : '' (Some err))), tr1)
      | Some (Inr bucket, tr1) \<Rightarrow>
          (case json_Unmarshal_listPayload lib (Data req) of
             Inl err \<Rightarrow>
               (Returned (Inl (Errorf
                  ''aliyun oss binding error. list operation. cannot unmarshal json to blobs: ''
                  (Some err))), tr1)
           | Inr decoded \<Rightarrow>
               (let payload = (if MaxKeys decoded = 0 then decoded\<lparr>MaxKeys := maxKeys\<rparr>
                               else decoded);
                    options = [oss_Prefix (Prefix payload), oss_Marker (Marker payload),
                               oss_MaxKeys (sint (MaxKeys payload)),
                               oss_Delimiter (Delimiter payload)];
                    tr2 = tr1 @ [Call_ListObjects bucket options]
                in case bucket_ListObjects lib bucket options of
                     Inl err \<Rightarrow>
                       (Returned (Inl (Errorf
                          ''aliyun oss binding error. error listing objects: '' (Some err))),
                        tr2)
                   | Inr result \<Rightarrow>
                       (case json_Marshal_ListObjectsResult lib result of
                          Inl err \<Rightarrow>
                            (Returned (Inl (Errorf
                               ''aliyun oss binding error. list operation. cannot marshal blobs to json: ''
                               (Some err))), tr2)
                        | Inr jsonResponse \<Rightarrow>
                            (Returned (Inr \<lparr>RespData = jsonResponse, RespMetadata = []\<rparr>),
                             tr2)))))"

definition parseMetadata :: "(string \<times> string) list \<Rightarrow> error + ossMetadata" where
  "parseMetadata properties =
     (case json_Marshal_Properties properties of
        Inl err \<Rightarrow> Inl err
      | Inr b \<Rightarrow>
          (case json_Unmarshal_ossMetadata b of
             Inl err \<Rightarrow> Inl err
           | Inr m \<Rightarrow> Inr m))"

definition getClient :: "library \<Rightarrow> ossMetadata \<Rightarrow> error + client" where
  "getClient lib m =
     (case oss_New lib (Endpoint m) (AccessKeyID m) (AccessKey m) of
        Inl err \<Rightarrow> Inl err
      | Inr c \<Rightarrow> Inr c)"

text \<open>\<open>Init\<close> returns its error (\<open>None\<close> for nil) and the adapter after the call.\<close>

definition Init ::
  "library \<Rightarrow> AliCloudOSS \<Rightarrow> (string \<times> string) list \<Rightarrow> error option \<times> AliCloudOSS" where
  "Init lib s properties =
     (case parseMetadata properties of
        Inl err \<Rightarrow> (Some err, s)
      | Inr m \<Rightarrow>
          (case getClient lib m of
             Inl err \<Rightarrow> (Some err, s)
           | Inr c \<Rightarrow> (None, s\<lparr>metadata := Some m, client := Some c\<rparr>)))"

definition Operations :: "string list" where
  "Operations = [CreateOperation, GetOperation, DeleteOperation, ListOperation]"

definition Invoke ::
  "library \<Rightarrow> AliCloudOSS \<Rightarrow> InvokeRequest \<Rightarrow> (error + InvokeResponse) outcome \<times> event list" where
  "Invoke lib s req =
     (if Operation req = CreateOperation then create lib s req
      else if Operation req = GetOperation then get lib s req
      else if Operation req = DeleteOperation then delete lib s req
      else if Operation req = ListOperation then list lib s req
      else (Returned (Inl (Errorf
              (''aliyun oss binding error. unsupported operation '' @ Operation req) None)),
            []))"

subsection \<open>A sample environment\<close>

text \<open>
  One environment, one initialized adapter and a request builder, for evaluating the
  handlers on concrete invocations. The store of the sample environment holds the object
  \<open>a.txt\<close> and the object \<open>broken.txt\<close>, whose body cannot be read;
  \<open>locked.txt\<close> is refused by the service, \<open>far.txt\<close> fails in the transport, every
  other key does not exist.
\<close>

definition sampleLibrary :: library where
  \<open>sampleLibrary =
     \<lparr>oss_New = (\<lambda>endpoint accessKeyID accessKey.
                   if endpoint = '''' then Inl (OtherError ''empty endpoint'')
                   else Inr (ClientHandle 0)),
      client_Bucket = (\<lambda>c name. Inr (BucketHandle 0)),
      bucket_PutObject = (\<lambda>b key data options. None),
      bucket_GetObject = (\<lambda>b key.
                   if key = ''a.txt'' then (Some (BodyHandle 0), None)
                   else if key = ''broken.txt'' then (Some (BodyHandle 1), None)
                   else if key = ''locked.txt'' then (None, Some (ServiceError 403 ''AccessDenied''))
                   else if key = ''far.txt'' then (None, Some (OtherError ''connection reset''))
                   else (None, Some (ServiceError 404 ''NoSuchKey''))),
      ioutil_ReadAll = (\<lambda>b. if b = BodyHandle 1 then Inl (OtherError ''unexpected EOF'')
                             else Inr ''hello''),
      bucket_GetObjectDetailedMeta = (\<lambda>b key. Inr [(''X-Oss-Meta-Owner'', [''bob''])]),
      bucket_DeleteObject = (\<lambda>b key. None),
      bucket_ListObjects = (\<lambda>b options. Inr (ListingHandle 0)),
      json_Marshal_ListObjectsResult = (\<lambda>r. Inr ''{}''),
      json_scan = (\<lambda>data.
                   if data = ''{"prefix":"logs/"}''
                   then Inr (JObject [(''prefix'', JString ''logs/'')])
                   else if data = ''{"prefix":"logs/","maxkeys":1000}''
                   then Inr (JObject [(''prefix'', JString ''logs/''), (''maxkeys'', JNumber ''1000'')])
                   else if data = ''{"prefix":"logs/","maxkeys":0}''
                   then Inr (JObject [(''prefix'', JString ''logs/''), (''maxkeys'', JNumber ''0'')])
                   else Inl (SyntaxError ''unexpected end of JSON input'')),
      uuid_New = [0, 1, 2, 3, 4, 5, 6, 7, 8, 9, 10, 11, 12, 13, 14, 15]\<rparr>\<close>

definition sampleAdapter :: AliCloudOSS where
  "sampleAdapter =
     \<lparr>metadata = Some \<lparr>Endpoint = ''oss.example.com'', AccessKeyID = ''id'',
                        AccessKey = ''secret'', Bucket = ''bkt''\<rparr>,
      client = Some (ClientHandle 0), logger = Some ()\<rparr>"

definition request :: "string \<Rightarrow> (string \<times> string) list \<Rightarrow> bytes \<Rightarrow> InvokeRequest" where
  "request operation md data = \<lparr>Data = data, Metadata = md, Operation = operation\<rparr>"


subsection \<open>Notions for stating what configuration parsing yields\<close>

text \<open>
  \<open>field name m\<close> is the field of \<open>m\<close> that carries the JSON tag \<open>name\<close>.
  \<open>matched name props\<close> are the entries of a property map whose key the decoder takes
  for \<open>name\<close>: the key is equal to \<open>name\<close> under the decoder's case folding.
\<close>

definition field :: "string \<Rightarrow> ossMetadata \<Rightarrow> string" where
  "field name m =
     (if name = ''endpoint'' then Endpoint m
      else if name = ''accessKeyID'' then AccessKeyID m
      else if name = ''accessKey'' then AccessKey m
      else if name = ''bucket'' then Bucket m
      else '''')"

definition matched :: "string \<Rightarrow> (string \<times> string) list \<Rightarrow> (string \<times> string) list" where
  "matched name props = filter (\<lambda>(k, v). equalFoldRight name k) props"

section \<open>Properties\<close>

subsection \<open>Reading the key\<close>

lemma lookup_missing:
  "map_of md k = None \<or> map_of md k = Some '''' \<Longrightarrow> \<not> (snd (lookup md k) \<and> fst (lookup md k) \<noteq> '''')"
  by (auto simp: lookup_def)

lemma lookup_present:
  "map_of md k = Some v \<Longrightarrow> v \<noteq> '''' \<Longrightarrow> lookup md k = (v, True)"
  by (simp add: lookup_def)

lemma getBucket_ready:
  "client s = Some c \<Longrightarrow> metadata s = Some m \<Longrightarrow>
   getBucket lib s = Some (client_Bucket lib c (Bucket m), [Call_Bucket c (Bucket m)])"
  by (simp add: getBucket_def)

text \<open>
  Claim C4. A Get or Delete invocation whose metadata has no \<open>key\<close> entry, or has the
  empty string under \<open>key\<close>, returns the missing-key error, and the trace of calls is
  empty: no bucket, fetch or delete call was issued. This holds for every adapter, an
  uninitialized one included.
\<close>

theorem get_delete_missing_key:
  assumes "map_of (Metadata req) ''key'' = None \<or> map_of (Metadata req) ''key'' = Some ''''"
  shows "get lib s req =
           (Returned (Inl (Errorf ''alicloud oss binding error: can't read key value'' None)), [])
       \<and> delete lib s req =
           (Returned (Inl (Errorf ''alicloud oss binding error: can't read key value'' None)), [])"
  using lookup_missing [OF assms]
  by (simp add: get_def delete_def metadataKey_def case_prod_beta)

theorem get_delete_missing_key_witness:
  "map_of (Metadata (request ''get'' [] [])) ''key'' = None
   \<and> get sampleLibrary (NewAliCloudOSS None) (request ''get'' [] []) =
       (Returned (Inl (Errorf ''alicloud oss binding error: can't read key value'' None)), [])
   \<and> delete sampleLibrary (NewAliCloudOSS None) (request ''get'' [] []) =
       (Returned (Inl (Errorf ''alicloud oss binding error: can't read key value'' None)), [])
   \<and> map_of (Metadata (request ''delete'' [(''key'', '''')] [])) ''key'' = Some ''''
   \<and> get sampleLibrary sampleAdapter (request ''delete'' [(''key'', '''')] []) =
       (Returned (Inl (Errorf ''alicloud oss binding error: can't read key value'' None)), [])
   \<and> delete sampleLibrary sampleAdapter (request ''delete'' [(''key'', '''')] []) =
       (Returned (Inl (Errorf ''alicloud oss binding error: can't read key value'' None)), [])"
  using get_delete_missing_key [of "request ''get'' [] []" sampleLibrary "NewAliCloudOSS None"]
    get_delete_missing_key [of "request ''delete'' [(''key'', '''')] []" sampleLibrary
      sampleAdapter]
  by (simp add: request_def)

subsection \<open>Dispatch\<close>

text \<open>
  Claim C9. When the operation of a request is none of create, get, delete and list,
  \<open>Invoke\<close> returns an error whose message ends with the operation name (so the name is
  contained in it), and the trace of calls is empty: no handler ran and no SDK call was made.
\<close>

theorem Invoke_unsupported_operation:
  assumes "Operation req \<notin> set Operations"
  shows "Invoke lib s req =
           (Returned (Inl (Errorf
              (''aliyun oss binding error. unsupported operation '' @ Operation req) None)), [])
       \<and> sublist (Operation req)
           (errText (Errorf
              (''aliyun oss binding error. unsupported operation '' @ Operation req) None))"
proof -
  have "sublist (Operation req)
          (''aliyun oss binding error. unsupported operation '' @ Operation req)"
    by (rule sublist_append_leftI)
  moreover have "Invoke lib s req =
           (Returned (Inl (Errorf
              (''aliyun oss binding error. unsupported operation '' @ Operation req) None)), [])"
    using assms by (simp add: Invoke_def Operations_def)
  ultimately show ?thesis
    by (simp only: error.sel simp_thms)
qed

theorem Invoke_unsupported_operation_witness:
  "Operation (request ''update'' [] []) \<notin> set Operations
   \<and> Invoke sampleLibrary sampleAdapter (request ''update'' [] []) =
       (Returned (Inl (Errorf ''aliyun oss binding error. unsupported operation update'' None)), [])
   \<and> sublist ''update'' ''aliyun oss binding error. unsupported operation update''"
  using Invoke_unsupported_operation [of "request ''update'' [] []" sampleLibrary sampleAdapter]
  by (simp add: request_def Operations_def CreateOperation_def GetOperation_def
      DeleteOperation_def ListOperation_def)

subsection \<open>Get\<close>

text \<open>
  Claim C1. A Get invocation with a non-empty key, on an initialized adapter whose bucket
  is obtained, and whose fetch fails with the service error of status 404 and code
  \<open>NoSuchKey\<close>, returns the empty response (no data, no metadata) and no error. The calls
  made are the bucket call and the fetch.
\<close>

theorem get_not_found:
  assumes "map_of (Metadata req) ''key'' = Some key" and "key \<noteq> ''''"
    and "client s = Some c" and "metadata s = Some m"
    and "client_Bucket lib c (Bucket m) = Inr b"
    and "bucket_GetObject lib b key = (body, Some (ServiceError 404 ''NoSuchKey''))"
  shows "get lib s req =
           (Returned (Inr emptyResponse), [Call_Bucket c (Bucket m), Call_GetObject b key])
       \<and> RespData emptyResponse = [] \<and> RespMetadata emptyResponse = []"
  using assms
  by (simp add: get_def metadataKey_def lookup_present getBucket_ready emptyResponse_def Let_def)

theorem get_not_found_witness:
  "get sampleLibrary sampleAdapter (request ''get'' [(''key'', ''missing.txt'')] []) =
     (Returned (Inr \<lparr>RespData = [], RespMetadata = []\<rparr>),
      [Call_Bucket (ClientHandle 0) ''bkt'', Call_GetObject (BucketHandle 0) ''missing.txt''])"
  using get_not_found [of "request ''get'' [(''key'', ''missing.txt'')] []" "''missing.txt''"
      sampleAdapter "ClientHandle 0"
      "\<lparr>Endpoint = ''oss.example.com'', AccessKeyID = ''id'', AccessKey = ''secret'',
        Bucket = ''bkt''\<rparr>" sampleLibrary "BucketHandle 0" None]
  by (simp add: request_def sampleAdapter_def sampleLibrary_def emptyResponse_def)

lemma get_fetch_failure_wrapped:
  assumes "map_of (Metadata req) ''key'' = Some key" and "key \<noteq> ''''"
    and "client s = Some c" and "metadata s = Some m"
    and "client_Bucket lib c (Bucket m) = Inr b"
    and "bucket_GetObject lib b key = (body, Some e)"
    and "\<forall>sc code. e \<noteq> ServiceError sc code"
  shows "get lib s req =
           (Returned (Inl (Errorf ''alicloud oss binding error: error getting object : ''
              (Some e))), [Call_Bucket c (Bucket m), Call_GetObject b key])"
  using assms
  by (cases e) (simp_all add: get_def metadataKey_def lookup_present getBucket_ready Let_def)

lemma get_transport_failure_example:
  "get sampleLibrary sampleAdapter (request ''get'' [(''key'', ''far.txt'')] []) =
     (Returned (Inl (Errorf ''alicloud oss binding error: error getting object : ''
        (Some (OtherError ''connection reset'')))),
      [Call_Bucket (ClientHandle 0) ''bkt'', Call_GetObject (BucketHandle 0) ''far.txt''])"
  by (simp add: get_def metadataKey_def lookup_def getBucket_def
      request_def sampleAdapter_def sampleLibrary_def Let_def)

lemma get_other_service_error:
  assumes "map_of (Metadata req) ''key'' = Some key" and "key \<noteq> ''''"
    and "client s = Some c" and "metadata s = Some m"
    and "client_Bucket lib c (Bucket m) = Inr b"
    and "bucket_GetObject lib b key = (None, Some (ServiceError sc code))"
    and "\<not> (sc = 404 \<and> code = ''NoSuchKey'')"
  shows "get lib s req = (Panicked, [Call_Bucket c (Bucket m), Call_GetObject b key])"
  using assms
  by (simp add: get_def metadataKey_def lookup_present getBucket_ready get_body_def Let_def)

text \<open>
  Claim C2. Every fetch failure other than not-found should come back as an error that
  wraps the failure. A failure that is not a service error does (lemma
  \<open>get_fetch_failure_wrapped\<close>). A service error other than not-found does not: the
  handler leaves the error check without returning and goes on to \<open>defer body.Close()\<close>
  with the nil body of the failed fetch, which panics (lemma \<open>get_other_service_error\<close>).
  The theorem evaluates the handler on the key \<open>locked.txt\<close>, whose fetch the sample
  service refuses with status 403 and code \<open>AccessDenied\<close>.
\<close>

theorem get_access_denied_panics:
  "get sampleLibrary sampleAdapter (request ''get'' [(''key'', ''locked.txt'')] []) =
     (Panicked,
      [Call_Bucket (ClientHandle 0) ''bkt'', Call_GetObject (BucketHandle 0) ''locked.txt''])"
  by (simp add: get_def metadataKey_def lookup_def getBucket_def get_body_def
      request_def sampleAdapter_def sampleLibrary_def Let_def)





subsection \<open>Initialization\<close>

text \<open>
  Claim C10. When \<open>Init\<close> returns an error, the adapter is unchanged (its configuration
  and its client handle are what they were, unset for a new adapter), and the error is the
  one of configuration parsing or of client construction. When \<open>Init\<close> returns no error,
  both steps succeeded and the two fields are set together, to their results.
\<close>

theorem Init_atomic:
  "(\<forall>err s'. Init lib s properties = (Some err, s') \<longrightarrow>
      s' = s \<and> metadata s' = metadata s \<and> client s' = client s
      \<and> (parseMetadata properties = Inl err
          \<or> (\<exists>m. parseMetadata properties = Inr m \<and> getClient lib m = Inl err)))
   \<and> (\<forall>s'. Init lib s properties = (None, s') \<longrightarrow>
      (\<exists>m c. parseMetadata properties = Inr m \<and> getClient lib m = Inr c
         \<and> s' = s\<lparr>metadata := Some m, client := Some c\<rparr>))"
proof (cases "parseMetadata properties")
  case (Inl err)
  then show ?thesis by (simp add: Init_def)
next
  case parsed: (Inr m)
  show ?thesis
  proof (cases "getClient lib m")
    case (Inl err)
    with parsed show ?thesis by (simp add: Init_def)
  next
    case (Inr c)
    with parsed show ?thesis by (simp add: Init_def)
  qed
qed

theorem Init_atomic_witness:
  "Init sampleLibrary (NewAliCloudOSS (Some ())) [(''bucket'', ''bkt'')] =
     (Some (OtherError ''empty endpoint''), NewAliCloudOSS (Some ()))
   \<and> metadata (NewAliCloudOSS (Some ())) = None \<and> client (NewAliCloudOSS (Some ())) = None
   \<and> Init sampleLibrary (NewAliCloudOSS (Some ()))
       [(''endpoint'', ''oss.example.com''), (''bucket'', ''bkt'')] =
     (None, \<lparr>metadata = Some \<lparr>Endpoint = ''oss.example.com'', AccessKeyID = '''',
                               AccessKey = '''', Bucket = ''bkt''\<rparr>,
             client = Some (ClientHandle 0), logger = Some ()\<rparr>)"
proof -
  have p1: "parseMetadata [(''bucket'', ''bkt'')] =
      Inr \<lparr>Endpoint = '''', AccessKeyID = '''', AccessKey = '''', Bucket = ''bkt''\<rparr>"
    by code_simp
  have p2: "parseMetadata [(''endpoint'', ''oss.example.com''), (''bucket'', ''bkt'')] =
      Inr \<lparr>Endpoint = ''oss.example.com'', AccessKeyID = '''', AccessKey = '''',
           Bucket = ''bkt''\<rparr>"
    by code_simp
  have f: "Init sampleLibrary (NewAliCloudOSS (Some ())) [(''bucket'', ''bkt'')] =
     (Some (OtherError ''empty endpoint''), NewAliCloudOSS (Some ()))"
    by (simp add: Init_def p1 getClient_def sampleLibrary_def)
  have g: "Init sampleLibrary (NewAliCloudOSS (Some ()))
       [(''endpoint'', ''oss.example.com''), (''bucket'', ''bkt'')] =
     (None, \<lparr>metadata = Some \<lparr>Endpoint = ''oss.example.com'', AccessKeyID = '''',
                               AccessKey = '''', Bucket = ''bkt''\<rparr>,
             client = Some (ClientHandle 0), logger = Some ()\<rparr>)"
    by (simp add: Init_def p2 getClient_def sampleLibrary_def NewAliCloudOSS_def)
  from Init_atomic [of sampleLibrary "NewAliCloudOSS (Some ())" "[(''bucket'', ''bkt'')]"] f g
  show ?thesis by (simp add: NewAliCloudOSS_def)
qed

subsection \<open>Create\<close>

lemma hex_Encode_length: "length (hex_Encode src) = 2 * length src"
  by (induction src) (simp_all add: hex_Encode_def)

lemma uuid_String_length: "length u = 16 \<Longrightarrow> length (uuid_String u) = 36"
  by (simp add: uuid_String_def hex_Encode_length)


lemma create_options:
  "oss_Meta k v \<in> set (map (\<lambda>(k, v). oss_Meta k v) (filter (\<lambda>(k, v). k \<noteq> ''key'') md))
   \<longleftrightarrow> (k, v) \<in> set md \<and> k \<noteq> ''key''"
  by (induction md) auto

lemma create_options_Meta:
  "o' \<in> set (map (\<lambda>(k, v). oss_Meta k v) (filter (\<lambda>(k, v). k \<noteq> ''key'') md))
   \<Longrightarrow> \<exists>k v. o' = oss_Meta k v"
  by (induction md) auto

lemma create_given_key:
  assumes "map_of (Metadata req) ''key'' = Some k" and "k \<noteq> ''''"
  shows "create lib s req = create_put lib s req k []"
  using assms by (simp add: create_def metadataKey_def lookup_present)

lemma create_generated_key:
  assumes "map_of (Metadata req) ''key'' = None \<or> map_of (Metadata req) ''key'' = Some ''''"
  shows "create lib s req =
     (case logger s of
        None \<Rightarrow> (Panicked, [Call_uuid_New])
      | Some lg \<Rightarrow>
          create_put lib s req (uuid_String (uuid_New lib))
            [Call_uuid_New,
             Call_Debugf (''key not found. generating key '' @ uuid_String (uuid_New lib))])"
proof -
  have "lookup (Metadata req) metadataKey = ([], False)
      \<or> lookup (Metadata req) metadataKey = ([], True)"
    using assms by (auto simp: lookup_def metadataKey_def)
  then show ?thesis
    by (auto simp: create_def Let_def)
qed

lemma getBucket_trace:
  "getBucket lib s = Some (r, tr1) \<Longrightarrow> \<exists>c n. tr1 = [Call_Bucket c n]"
  by (auto simp: getBucket_def split: option.splits)

text \<open>
  Claim C5, as amended. In every successful Create invocation the last call is the one
  \<open>PutObject\<close> of the invocation, accepted by the store; its body is the request data;
  its key is the request's \<open>key\<close> metadata value when that value is present and not
  empty, and the generated identifier otherwise; its options are exactly one
  \<open>oss.Meta\<close> for each metadata entry whose key is not \<open>key\<close>, so the \<open>key\<close> entry
  is not attached; and the response is empty.
\<close>

theorem create_stores_object:
  assumes "create lib s req = (Returned (Inr resp), tr)"
  shows "resp = emptyResponse
       \<and> (\<exists>pre b key options.
            tr = pre @ [Call_PutObject b key (Data req) options]
          \<and> (\<forall>b' k' d' o'. Call_PutObject b' k' d' o' \<notin> set pre)
          \<and> bucket_PutObject lib b key (Data req) options = None
          \<and> (\<forall>k. map_of (Metadata req) ''key'' = Some k \<and> k \<noteq> '''' \<longrightarrow> key = k)
          \<and> (map_of (Metadata req) ''key'' = None \<or> map_of (Metadata req) ''key'' = Some ''''
               \<longrightarrow> key = uuid_String (uuid_New lib))
          \<and> (\<forall>k v. oss_Meta k v \<in> set options \<longleftrightarrow> (k, v) \<in> set (Metadata req) \<and> k \<noteq> ''key'')
          \<and> (\<forall>o' \<in> set options. \<exists>k v. o' = oss_Meta k v)
          \<and> length options = length (filter (\<lambda>(k, v). k \<noteq> ''key'') (Metadata req)))"
proof (cases "\<exists>k. map_of (Metadata req) ''key'' = Some k \<and> k \<noteq> ''''")
  case True
  then obtain k where k: "map_of (Metadata req) ''key'' = Some k" "k \<noteq> ''''" by blast
  show ?thesis
    using assms k getBucket_trace [of lib s]
    unfolding create_given_key [OF k] create_put_def
    by (auto simp: Let_def create_options dest: create_options_Meta
        split: option.splits sum.splits prod.splits)
next
  case False
  then have m: "map_of (Metadata req) ''key'' = None \<or> map_of (Metadata req) ''key'' = Some ''''"
    by (cases "map_of (Metadata req) ''key''") auto
  show ?thesis
    using assms m getBucket_trace [of lib s]
    unfolding create_generated_key [OF m] create_put_def
    by (auto simp: Let_def create_options dest: create_options_Meta
        split: option.splits sum.splits prod.splits if_splits)
qed

theorem create_stores_object_witness:
  "create sampleLibrary sampleAdapter
     (request ''create'' [(''key'', ''a.txt''), (''owner'', ''bob'')] ''hello'') =
     (Returned (Inr \<lparr>RespData = [], RespMetadata = []\<rparr>),
      [Call_Bucket (ClientHandle 0) ''bkt'',
       Call_PutObject (BucketHandle 0) ''a.txt'' ''hello'' [oss_Meta ''owner'' ''bob'']])
   \<and> create sampleLibrary sampleAdapter (request ''create'' [(''owner'', ''bob'')] ''hello'') =
     (Returned (Inr \<lparr>RespData = [], RespMetadata = []\<rparr>),
      [Call_uuid_New,
       Call_Debugf ''key not found. generating key 00010203-0405-0607-0809-0a0b0c0d0e0f'',
       Call_Bucket (ClientHandle 0) ''bkt'',
       Call_PutObject (BucketHandle 0) ''00010203-0405-0607-0809-0a0b0c0d0e0f'' ''hello''
         [oss_Meta ''owner'' ''bob'']])"
proof -
  have run: "create sampleLibrary sampleAdapter
     (request ''create'' [(''key'', ''a.txt''), (''owner'', ''bob'')] ''hello'') =
     (Returned (Inr emptyResponse),
      [Call_Bucket (ClientHandle 0) ''bkt'',
       Call_PutObject (BucketHandle 0) ''a.txt'' ''hello'' [oss_Meta ''owner'' ''bob'']])"
    by (simp add: create_def create_put_def metadataKey_def lookup_def getBucket_def Let_def
        request_def sampleAdapter_def sampleLibrary_def)
  have run': "create sampleLibrary sampleAdapter
     (request ''create'' [(''owner'', ''bob'')] ''hello'') =
     (Returned (Inr emptyResponse),
      [Call_uuid_New,
       Call_Debugf ''key not found. generating key 00010203-0405-0607-0809-0a0b0c0d0e0f'',
       Call_Bucket (ClientHandle 0) ''bkt'',
       Call_PutObject (BucketHandle 0) ''00010203-0405-0607-0809-0a0b0c0d0e0f'' ''hello''
         [oss_Meta ''owner'' ''bob'']])"
    by (simp add: create_def create_put_def metadataKey_def lookup_def getBucket_def Let_def
        request_def sampleAdapter_def sampleLibrary_def uuid_String_def hex_Encode_def
        hextable_def drop_bit_eq_div)
  from create_stores_object [OF run] create_stores_object [OF run'] run run' show ?thesis
    by (simp add: emptyResponse_def)
qed

text \<open>
  The claim as stated fails on a request whose \<open>key\<close> entry is the empty string: the
  invocation succeeds, and the object is stored under the generated identifier, not under
  the request's \<open>key\<close> value.
\<close>

theorem create_empty_key_counterexample:
  "map_of (Metadata (request ''create'' [(''key'', '''')] ''hello'')) ''key'' = Some ''''
   \<and> create sampleLibrary sampleAdapter (request ''create'' [(''key'', '''')] ''hello'') =
     (Returned (Inr emptyResponse),
      [Call_uuid_New,
       Call_Debugf ''key not found. generating key 00010203-0405-0607-0809-0a0b0c0d0e0f'',
       Call_Bucket (ClientHandle 0) ''bkt'',
       Call_PutObject (BucketHandle 0) ''00010203-0405-0607-0809-0a0b0c0d0e0f'' ''hello'' []])"
  by (simp add: create_def create_put_def metadataKey_def lookup_def getBucket_def Let_def
      request_def sampleAdapter_def sampleLibrary_def uuid_String_def hex_Encode_def
      hextable_def drop_bit_eq_div)














subsection \<open>List\<close>

lemma findField_names: "findField names key = Some f \<Longrightarrow> f \<in> set names"
  by (auto simp: findField_def find_Some_iff split: if_splits)

lemma listPayload_store_MaxKeys:
  "f \<noteq> ''maxkeys'' \<Longrightarrow> listPayload_store f val p = Inr p' \<Longrightarrow> MaxKeys p' = MaxKeys p"
  by (auto simp: listPayload_store_def split: sum.splits option.splits if_splits)

lemma object_MaxKeys_absent:
  "\<forall>(k, v) \<in> set kvs. findField listPayload_fields k \<noteq> Some ''maxkeys'' \<Longrightarrow>
   MaxKeys (fst (object listPayload_fields listPayload_store kvs (p, e))) = MaxKeys p"
proof (induction kvs arbitrary: p e)
  case Nil
  then show ?case by simp
next
  case (Cons kv kvs)
  obtain k v where kv: "kv = (k, v)" by (cases kv)
  have rest: "\<forall>(k, v) \<in> set kvs. findField listPayload_fields k \<noteq> Some ''maxkeys''"
    using Cons.prems by simp
  have here: "findField listPayload_fields k \<noteq> Some ''maxkeys''"
    using Cons.prems kv by simp
  show ?case
  proof (cases "findField listPayload_fields k")
    case None
    then show ?thesis using Cons.IH [OF rest] kv by simp
  next
    case (Some f)
    with here have f: "f \<noteq> ''maxkeys''" by simp
    show ?thesis
    proof (cases "listPayload_store f v p")
      case (Inl err)
      then show ?thesis using Cons.IH [OF rest] kv Some by simp
    next
      case (Inr p')
      then have "MaxKeys p' = MaxKeys p" using f by (rule listPayload_store_MaxKeys [rotated])
      then show ?thesis using Cons.IH [OF rest, of p' e] kv Some Inr by simp
    qed
  qed
qed

text \<open>
  A query without a member for \<open>maxkeys\<close> decodes to \<open>MaxKeys = 0\<close>: the decoder leaves
  the zero value of a field that no member of the object is matched to.
\<close>

lemma Unmarshal_listPayload_absent:
  assumes "json_scan lib data = Inr (JObject kvs)"
    and "\<forall>(k, v) \<in> set kvs. findField listPayload_fields k \<noteq> Some ''maxkeys''"
    and "json_Unmarshal_listPayload lib data = Inr p"
  shows "MaxKeys p = 0"
proof -
  have "MaxKeys (fst (object listPayload_fields listPayload_store kvs (listPayload_zero, None)))
        = MaxKeys listPayload_zero"
    using assms(2) by (rule object_MaxKeys_absent)
  moreover have "p = fst (object listPayload_fields listPayload_store kvs (listPayload_zero, None))"
    using assms(1,3)
    by (auto simp: json_Unmarshal_listPayload_def Unmarshal_struct_def
        split: prod.splits option.splits)
  ultimately show ?thesis by (simp add: listPayload_zero_def)
qed

lemma list_decoded:
  assumes "json_Unmarshal_listPayload lib (Data req) = Inr decoded"
  shows "list lib s req =
     (case getBucket lib s of
        None \<Rightarrow> (Panicked, [])
      | Some (Inl err, tr1) \<Rightarrow>
          (Returned (Inl (Errorf
             ''alicloud oss binding error: error getting bucket : '' (Some err))), tr1)
      | Some (Inr bucket, tr1) \<Rightarrow>
          (let payload = (if MaxKeys decoded = 0 then decoded\<lparr>MaxKeys := maxKeys\<rparr>
                          else decoded);
               options = [oss_Prefix (Prefix payload), oss_Marker (Marker payload),
                          oss_MaxKeys (sint (MaxKeys payload)),
                          oss_Delimiter (Delimiter payload)];
               tr2 = tr1 @ [Call_ListObjects bucket options]
           in case bucket_ListObjects lib bucket options of
                Inl err \<Rightarrow>
                  (Returned (Inl (Errorf
                     ''aliyun oss binding error. error listing objects: '' (Some err))), tr2)
              | Inr result \<Rightarrow>
                  (case json_Marshal_ListObjectsResult lib result of
                     Inl err \<Rightarrow>
                       (Returned (Inl (Errorf
                          ''aliyun oss binding error. list operation. cannot marshal blobs to json: ''
                          (Some err))), tr2)
                   | Inr jsonResponse \<Rightarrow>
                       (Returned (Inr \<lparr>RespData = jsonResponse, RespMetadata = []\<rparr>), tr2))))"
  using assms by (simp add: list_def split: option.splits sum.splits prod.splits)

lemma sint_maxKeys: "sint maxKeys = 1000"
  by (simp add: maxKeys_def)

text \<open>
  Claim C8. Take a List invocation whose query decodes with \<open>MaxKeys = 0\<close> (which is
  what a query without the member decodes to, lemma \<open>Unmarshal_listPayload_absent\<close>) and
  one whose query decodes to the same payload with \<open>MaxKeys = 1000\<close>. On the same adapter
  and environment the two invocations are equal: same outcome, same calls. A listing call
  of the first invocation has the options prefix, marker, \<open>MaxKeys(1000)\<close> and delimiter,
  and the call is made whenever the bucket is obtained.
\<close>

theorem list_default_maxKeys:
  assumes "json_Unmarshal_listPayload lib (Data req) = Inr p"
    and "MaxKeys p = 0"
    and "json_Unmarshal_listPayload lib (Data req') = Inr (p\<lparr>MaxKeys := 1000\<rparr>)"
  shows "list lib s req = list lib s req'
       \<and> (\<forall>b options. Call_ListObjects b options \<in> set (snd (list lib s req)) \<longrightarrow>
            options = [oss_Prefix (Prefix p), oss_Marker (Marker p), oss_MaxKeys 1000,
                       oss_Delimiter (Delimiter p)])
       \<and> (\<forall>c m b. client s = Some c \<and> metadata s = Some m
                   \<and> client_Bucket lib c (Bucket m) = Inr b \<longrightarrow>
            Call_ListObjects b [oss_Prefix (Prefix p), oss_Marker (Marker p), oss_MaxKeys 1000,
                                oss_Delimiter (Delimiter p)] \<in> set (snd (list lib s req)))"
proof -
  have eq: "list lib s req = list lib s req'"
    unfolding list_decoded [OF assms(1)] list_decoded [OF assms(3)]
    using assms(2)
    by (simp add: maxKeys_def Let_def split: option.splits sum.splits prod.splits)
  have calls: "\<forall>b options. Call_ListObjects b options \<in> set (snd (list lib s req)) \<longrightarrow>
            options = [oss_Prefix (Prefix p), oss_Marker (Marker p), oss_MaxKeys 1000,
                       oss_Delimiter (Delimiter p)]"
    unfolding list_decoded [OF assms(1)]
    using assms(2) getBucket_trace [of lib s]
    by (auto simp: Let_def sint_maxKeys split: option.splits sum.splits prod.splits)
  have made: "\<forall>c m b. client s = Some c \<and> metadata s = Some m
                   \<and> client_Bucket lib c (Bucket m) = Inr b \<longrightarrow>
            Call_ListObjects b [oss_Prefix (Prefix p), oss_Marker (Marker p), oss_MaxKeys 1000,
                                oss_Delimiter (Delimiter p)] \<in> set (snd (list lib s req))"
    unfolding list_decoded [OF assms(1)]
    using assms(2)
    by (auto simp: Let_def sint_maxKeys getBucket_def split: option.splits sum.splits prod.splits)
  from eq calls made show ?thesis by blast
qed

lemma sample_scan_absent:
  \<open>json_Unmarshal_listPayload sampleLibrary ''{"prefix":"logs/"}'' =
     Inr \<lparr>Marker = '''', Prefix = ''logs/'', MaxKeys = 0, Delimiter = ''''\<rparr>\<close>
  by (simp add: json_Unmarshal_listPayload_def sampleLibrary_def Unmarshal_struct_def
      findField_def listPayload_fields_def listPayload_store_def listPayload_zero_def)

lemma sample_scan_zero:
  \<open>json_Unmarshal_listPayload sampleLibrary ''{"prefix":"logs/","maxkeys":0}'' =
     Inr \<lparr>Marker = '''', Prefix = ''logs/'', MaxKeys = 0, Delimiter = ''''\<rparr>\<close>
  by (simp add: json_Unmarshal_listPayload_def sampleLibrary_def Unmarshal_struct_def
      findField_def listPayload_fields_def listPayload_store_def listPayload_zero_def
      ParseInt_def ParseUint_def isDigit_def)

lemma sample_scan_thousand:
  \<open>json_Unmarshal_listPayload sampleLibrary ''{"prefix":"logs/","maxkeys":1000}'' =
     Inr \<lparr>Marker = '''', Prefix = ''logs/'', MaxKeys = 1000, Delimiter = ''''\<rparr>\<close>
  by (simp add: json_Unmarshal_listPayload_def sampleLibrary_def Unmarshal_struct_def
      findField_def listPayload_fields_def listPayload_store_def listPayload_zero_def
      ParseInt_def ParseUint_def isDigit_def)

theorem list_default_maxKeys_witness:
  \<open>list sampleLibrary sampleAdapter (request ''list'' [] ''{"prefix":"logs/"}'') =
     list sampleLibrary sampleAdapter (request ''list'' [] ''{"prefix":"logs/","maxkeys":1000}'')
   \<and> list sampleLibrary sampleAdapter (request ''list'' [] ''{"prefix":"logs/"}'') =
     (Returned (Inr \<lparr>RespData = ''{}'', RespMetadata = []\<rparr>),
      [Call_Bucket (ClientHandle 0) ''bkt'',
       Call_ListObjects (BucketHandle 0)
         [oss_Prefix ''logs/'', oss_Marker '''', oss_MaxKeys 1000, oss_Delimiter '''']])\<close>
proof -
  let ?p = "\<lparr>Marker = '''', Prefix = ''logs/'', MaxKeys = 0, Delimiter = ''''\<rparr>"
  have a: \<open>json_Unmarshal_listPayload sampleLibrary
             (Data (request ''list'' [] ''{"prefix":"logs/"}'')) = Inr ?p\<close>
    using sample_scan_absent by (simp add: request_def)
  have z: "MaxKeys ?p = 0" by simp
  have t: \<open>json_Unmarshal_listPayload sampleLibrary
             (Data (request ''list'' [] ''{"prefix":"logs/","maxkeys":1000}'')) =
           Inr (?p\<lparr>MaxKeys := 1000\<rparr>)\<close>
    using sample_scan_thousand by (simp add: request_def)
  have run: \<open>list sampleLibrary sampleAdapter (request ''list'' [] ''{"prefix":"logs/"}'') =
     (Returned (Inr \<lparr>RespData = ''{}'', RespMetadata = []\<rparr>),
      [Call_Bucket (ClientHandle 0) ''bkt'',
       Call_ListObjects (BucketHandle 0)
         [oss_Prefix ''logs/'', oss_Marker '''', oss_MaxKeys 1000, oss_Delimiter '''']])\<close>
    unfolding list_decoded [OF a]
    by (simp add: getBucket_def sampleAdapter_def sampleLibrary_def Let_def sint_maxKeys)
  from list_default_maxKeys [OF a z t, of sampleAdapter] run show ?thesis
    by simp
qed

subsection \<open>Configuration parsing\<close>

lemma equalFoldRight_Nil [simp]: "equalFoldRight s [] \<longleftrightarrow> s = []"
  by (cases s) simp_all

text \<open>
  On a key of ASCII bytes the folding is equality up to the case of letters, byte by byte.
\<close>

lemma equalFoldRight_ascii:
  "\<forall>c \<in> set key. (of_char c :: nat) < 0x80 \<Longrightarrow>
   equalFoldRight name key \<longleftrightarrow>
   list_all2 (\<lambda>sb tb. sb = tb \<or> (0x41 \<le> caseMask sb \<and> caseMask sb \<le> 0x5A
                                   \<and> caseMask sb = caseMask tb)) name key"
proof (induction name arbitrary: key)
  case Nil
  then show ?case by auto
next
  case (Cons sb s)
  show ?case
  proof (cases key)
    case Nil
    then show ?thesis by simp
  next
    case (Cons tb t)
    with Cons.prems Cons.IH [of t] show ?thesis by (auto simp: Let_def)
  qed
qed

lemma equalFoldRight_longer:
  "equalFoldRight (s @ s1) t \<Longrightarrow> equalFoldRight s t \<Longrightarrow> s1 = []"
proof (induction s arbitrary: t)
  case Nil
  then show ?case by simp
next
  case (Cons c s)
  then obtain tb t' where t: "t = tb # t'" by (cases t) auto
  show ?case
    using Cons.prems Cons.IH [of t'] Cons.IH [of "drop 1 t'"] Cons.IH [of "drop 2 t'"]
    unfolding t
    by (auto simp: Let_def split: if_splits)
qed

lemma equalFoldRight_head:
  "equalFoldRight (c # s) t \<Longrightarrow> c \<noteq> CHR ''s'' \<Longrightarrow> c \<noteq> CHR ''S'' \<Longrightarrow>
   c \<noteq> CHR ''k'' \<Longrightarrow> c \<noteq> CHR ''K'' \<Longrightarrow>
   \<exists>tb t'. t = tb # t' \<and> (tb = c \<or> caseMask tb = caseMask c)"
  by (cases t) (auto simp: Let_def split: if_splits)

lemma caseMask_e: "caseMask (CHR ''e'') = 0x45"
  by (simp add: caseMask_def)

lemma caseMask_a: "caseMask (CHR ''a'') = 0x41"
  by (simp add: caseMask_def)

lemma caseMask_b: "caseMask (CHR ''b'') = 0x42"
  by (simp add: caseMask_def)


lemma fields_exclusive:
  assumes "n1 \<in> set ossMetadata_fields" and "n2 \<in> set ossMetadata_fields"
    and "equalFoldRight n1 t" and "equalFoldRight n2 t"
  shows "n1 = n2"
proof -
  have long: "\<not> (equalFoldRight ''accessKeyID'' t \<and> equalFoldRight ''accessKey'' t)"
    using equalFoldRight_longer [of "''accessKey''" "''ID''" t] by auto
  have ea: "\<And>s1 s2. \<not> (equalFoldRight (CHR ''e'' # s1) t \<and> equalFoldRight (CHR ''a'' # s2) t)"
    by (auto dest!: equalFoldRight_head simp: caseMask_e caseMask_a)
  have eb: "\<And>s1 s2. \<not> (equalFoldRight (CHR ''e'' # s1) t \<and> equalFoldRight (CHR ''b'' # s2) t)"
    by (auto dest!: equalFoldRight_head simp: caseMask_e caseMask_b)
  have ab: "\<And>s1 s2. \<not> (equalFoldRight (CHR ''a'' # s1) t \<and> equalFoldRight (CHR ''b'' # s2) t)"
    by (auto dest!: equalFoldRight_head simp: caseMask_a caseMask_b)
  show ?thesis
    using assms long ea eb ab
    by (auto simp: ossMetadata_fields_def)
qed


lemma runeSize_ascii: "(of_char c :: nat) < 0x80 \<Longrightarrow> runeSize (c # cs) = Some 1"
  by (simp add: runeSize_def)

lemma coerceUTF8_ascii: "\<forall>c \<in> set v. (of_char c :: nat) < 0x80 \<Longrightarrow> coerceUTF8 v = v"
  by (induction v) (simp_all add: runeSize_ascii)

lemma coerceUTF8_valid: "ValidString v \<Longrightarrow> coerceUTF8 v = v"
  by (induction v rule: ValidString.induct) (auto split: option.splits)

lemma coerceUTF8_unchanged: "CHR 0xEF \<notin> set (coerceUTF8 k) \<Longrightarrow> coerceUTF8 k = k"
proof (induction k rule: coerceUTF8.induct)
  case 1
  then show ?case by simp
next
  case (2 c cs)
  show ?case
  proof (cases "runeSize (c # cs)")
    case None
    with "2.prems" show ?thesis by (simp add: replacementChar_def)
  next
    case (Some n)
    with "2.prems" have "CHR 0xEF \<notin> set (coerceUTF8 (drop (n - 1) cs))" by simp
    with "2.IH"(2) [OF Some] have "coerceUTF8 (drop (n - 1) cs) = drop (n - 1) cs" .
    with Some show ?thesis by simp
  qed
qed

lemma runeSize_longEss: "runeSize (CHR 0xC5 # CHR 0xBF # cs) = Some 2"
  by (simp add: runeSize_def continuation_def inRange_def)

lemma runeSize_kelvin: "runeSize (CHR 0xE2 # CHR 0x84 # CHR 0xAA # cs) = Some 3"
  by (simp add: runeSize_def continuation_def inRange_def)

lemma take2_longEss: "take 2 (tb # t) = smallLongEss \<longleftrightarrow> tb = CHR 0xC5 \<and> (\<exists>r. t = CHR 0xBF # r)"
  by (cases t) (auto simp: smallLongEss_def)

lemma take3_kelvin:
  "take 3 (tb # t) = kelvin \<longleftrightarrow> tb = CHR 0xE2 \<and> (\<exists>r. t = CHR 0x84 # CHR 0xAA # r)"
  by (cases t; cases "tl t") (auto simp: kelvin_def)

lemma equalFoldRight_valid:
  "equalFoldRight name t \<Longrightarrow> coerceUTF8 t = t \<and> CHR 0xEF \<notin> set t"
proof (induction name arbitrary: t)
  case Nil
  then show ?case by simp
next
  case (Cons c s)
  then obtain tb t' where t: "t = tb # t'" by (cases t) auto
  show ?case
  proof (cases "(of_char tb :: nat) < 0x80")
    case True
    with Cons.prems t have "equalFoldRight s t'" by (auto simp: Let_def split: if_splits)
    from Cons.IH [OF this] True t show ?thesis by (auto simp: runeSize_ascii)
  next
    case False
    with Cons.prems t have
      "(take 2 (tb # t') = smallLongEss \<and> equalFoldRight s (drop 1 t'))
       \<or> (take 3 (tb # t') = kelvin \<and> equalFoldRight s (drop 2 t'))"
      by (auto split: if_splits)
    then show ?thesis
    proof
      assume a: "take 2 (tb # t') = smallLongEss \<and> equalFoldRight s (drop 1 t')"
      then obtain r where r: "tb = CHR 0xC5" "t' = CHR 0xBF # r"
        using take2_longEss [of tb t'] by blast
      with a have "equalFoldRight s r" by simp
      from Cons.IH [OF this] r t show ?thesis by (simp add: runeSize_longEss)
    next
      assume a: "take 3 (tb # t') = kelvin \<and> equalFoldRight s (drop 2 t')"
      then obtain r where r: "tb = CHR 0xE2" "t' = CHR 0x84 # CHR 0xAA # r"
        using take3_kelvin [of tb t'] by blast
      with a have "equalFoldRight s r" by simp
      from Cons.IH [OF this] r t show ?thesis by (simp add: runeSize_kelvin)
    qed
  qed
qed

lemma equalFoldRight_coerceUTF8:
  "equalFoldRight name (coerceUTF8 k) \<longleftrightarrow> equalFoldRight name k"
proof
  assume "equalFoldRight name (coerceUTF8 k)"
  then have "CHR 0xEF \<notin> set (coerceUTF8 k)" by (simp add: equalFoldRight_valid)
  then have "coerceUTF8 k = k" by (rule coerceUTF8_unchanged)
  with \<open>equalFoldRight name (coerceUTF8 k)\<close> show "equalFoldRight name k" by simp
next
  assume "equalFoldRight name k"
  then show "equalFoldRight name (coerceUTF8 k)" by (simp add: equalFoldRight_valid)
qed

lemma equalFoldRight_fields_refl:
  "name \<in> set ossMetadata_fields \<Longrightarrow> equalFoldRight name name"
  by (auto simp: ossMetadata_fields_def)

lemma findField_iff:
  assumes "name \<in> set ossMetadata_fields"
  shows "findField ossMetadata_fields key = Some name \<longleftrightarrow> equalFoldRight name key"
proof (cases "key \<in> set ossMetadata_fields")
  case True
  then have "equalFoldRight key key" by (rule equalFoldRight_fields_refl)
  with True assms show ?thesis
    using fields_exclusive [of name key key] by (auto simp: findField_def)
next
  case False
  have ex: "\<And>n. n \<in> set ossMetadata_fields \<Longrightarrow> equalFoldRight n key \<Longrightarrow>
      equalFoldRight name key \<Longrightarrow> n = name"
    using assms fields_exclusive by blast
  show ?thesis
    using False assms ex
    by (auto simp: findField_def ossMetadata_fields_def)
qed

lemma matches_iff:
  "name \<in> set ossMetadata_fields \<Longrightarrow>
   findField ossMetadata_fields (coerceUTF8 k) = Some name \<longleftrightarrow> equalFoldRight name k"
  by (simp add: findField_iff equalFoldRight_coerceUTF8)

lemma object_encoded:
  "object ossMetadata_fields ossMetadata_store
     (map (\<lambda>(k, v). (coerceUTF8 k, JString (coerceUTF8 v))) es) (m, None) =
   (foldl (\<lambda>m (k, v). case findField ossMetadata_fields (coerceUTF8 k) of
                          None \<Rightarrow> m
                        | Some f \<Rightarrow> ossMetadata_set f (coerceUTF8 v) m) m es, None)"
  by (induction es arbitrary: m) (auto simp: ossMetadata_store_def split: option.splits)

lemma parseMetadata_foldl:
  "parseMetadata props =
   Inr (foldl (\<lambda>m (k, v). case findField ossMetadata_fields (coerceUTF8 k) of
                              None \<Rightarrow> m
                            | Some f \<Rightarrow> ossMetadata_set f (coerceUTF8 v) m)
          ossMetadata_zero (sort_key fst props))"
  by (simp add: parseMetadata_def json_Marshal_Properties_def json_Unmarshal_ossMetadata_def
      Unmarshal_struct_def object_encoded)

lemma field_set:
  "f \<in> set ossMetadata_fields \<Longrightarrow> name \<in> set ossMetadata_fields \<Longrightarrow>
   field name (ossMetadata_set f x m) = (if f = name then x else field name m)"
  by (auto simp: ossMetadata_fields_def field_def ossMetadata_set_def)

lemma field_foldl:
  assumes name: "name \<in> set ossMetadata_fields"
  shows "field name
           (foldl (\<lambda>m (k, v). case findField ossMetadata_fields (coerceUTF8 k) of
                                 None \<Rightarrow> m
                               | Some f \<Rightarrow> ossMetadata_set f (coerceUTF8 v) m) m es) =
         (if matched name es = [] then field name m
          else coerceUTF8 (snd (last (matched name es))))"
proof (induction es rule: rev_induct)
  case Nil
  then show ?case by (simp add: matched_def)
next
  case (snoc e es)
  obtain k v where e: "e = (k, v)" by (cases e)
  show ?case
  proof (cases "findField ossMetadata_fields (coerceUTF8 k)")
    case None
    then have "\<not> equalFoldRight name k" using matches_iff [OF name, of k] by simp
    then have "matched name (es @ [e]) = matched name es" by (simp add: matched_def e)
    with snoc None e show ?thesis by simp
  next
    case (Some f)
    then have f: "f \<in> set ossMetadata_fields" by (rule findField_names)
    show ?thesis
    proof (cases "f = name")
      case True
      with Some have "equalFoldRight name k" using matches_iff [OF name, of k] by simp
      then have "matched name (es @ [e]) = matched name es @ [e]" by (simp add: matched_def e)
      with Some True e f name show ?thesis by (simp add: field_set)
    next
      case False
      with Some have "\<not> equalFoldRight name k" using matches_iff [OF name, of k] by simp
      then have "matched name (es @ [e]) = matched name es" by (simp add: matched_def e)
      with snoc Some False e f name show ?thesis by (simp add: field_set)
    qed
  qed
qed

lemma matched_sort: "matched name (sort_key fst props) = sort_key fst (matched name props)"
  by (simp add: matched_def filter_sort)

lemma sorted_le_last:
  "sorted (map f xs) \<Longrightarrow> x \<in> set xs \<Longrightarrow> f x \<le> f (last xs)"
proof (induction xs)
  case Nil
  then show ?case by simp
next
  case (Cons y ys)
  then show ?case by (cases ys) auto
qed

lemma last_sort_key_greatest:
  assumes "(k, v) \<in> set es"
    and "\<forall>(k', v') \<in> set es. k' < k \<or> (k', v') = (k, v)"
  shows "last (sort_key fst es) = (k, v)"
proof -
  let ?xs = "sort_key fst es"
  from assms(1) have ne: "?xs \<noteq> []" by (metis empty_iff empty_set set_sort)
  then have "last ?xs \<in> set es" by (metis last_in_set set_sort)
  with assms(2) have "fst (last ?xs) < k \<or> last ?xs = (k, v)" by (cases "last ?xs") auto
  moreover have "k \<le> fst (last ?xs)"
    using sorted_le_last [of fst ?xs "(k, v)"] assms(1) by simp
  ultimately show ?thesis by auto
qed

lemma sort_key_Nil_iff: "sort_key f xs = [] \<longleftrightarrow> xs = []"
  by (metis length_0_conv length_sort)

lemma parseMetadata_field:
  assumes name: "name \<in> set ossMetadata_fields" and m: "parseMetadata props = Inr m"
  shows "field name m =
         (if matched name props = [] then []
          else coerceUTF8 (snd (last (sort_key fst (matched name props)))))"
proof -
  have "field name ossMetadata_zero = []"
    by (simp add: field_def ossMetadata_zero_def)
  with m show ?thesis
    unfolding parseMetadata_foldl
    by (auto simp: field_foldl [OF name] matched_sort sort_key_Nil_iff)
qed

lemma ossMetadata_fields_eq:
  "\<forall>name \<in> set ossMetadata_fields. field name m = field name m' \<Longrightarrow> m = m'"
  by (cases m; cases m') (simp add: ossMetadata_fields_def field_def)

lemma matched_recognized:
  "name \<in> set ossMetadata_fields \<Longrightarrow>
   matched name (filter (\<lambda>(k, v). list_ex (\<lambda>name. equalFoldRight name k) ossMetadata_fields) props)
   = matched name props"
  by (induction props) (auto simp: matched_def list_ex_iff)

text \<open>
  Claim C7, as amended. Configuration parsing succeeds on every property map. The
  decoder takes a key for a field when the key is equal to the field's name
  (\<open>endpoint\<close>, \<open>accessKeyID\<close>, \<open>accessKey\<close>, \<open>bucket\<close>) under case folding: the
  name itself, or a spelling that differs from it in letter case, as the keys of the
  repository's test do. For each of the four fields:
  \<^item> when no key of the map is taken for the field, the field is the empty string;
  \<^item> when a key is taken for it that is greater (in byte order) than every other key
    taken for it, in particular when it is the only one, the field is the value of that
    key, with each byte that does not start a valid UTF-8 encoding replaced by U+FFFD; a
    value that is valid UTF-8 is the field exactly.
  Entries whose key is taken for no field are ignored: parsing the map without them
  yields the same configuration.
\<close>

theorem parseMetadata_fields:
  "\<exists>m. parseMetadata props = Inr m
     \<and> (\<forall>name \<in> set ossMetadata_fields.
          (matched name props = [] \<longrightarrow> field name m = [])
        \<and> (\<forall>k v. (k, v) \<in> set (matched name props)
                 \<and> (\<forall>(k', v') \<in> set (matched name props). k' < k \<or> (k', v') = (k, v))
               \<longrightarrow> field name m = coerceUTF8 v \<and> (ValidString v \<longrightarrow> field name m = v)))
     \<and> parseMetadata
         (filter (\<lambda>(k, v). list_ex (\<lambda>name. equalFoldRight name k) ossMetadata_fields) props)
       = Inr m"
proof -
  let ?known = "filter (\<lambda>(k, v). list_ex (\<lambda>name. equalFoldRight name k) ossMetadata_fields) props"
  obtain m where m: "parseMetadata props = Inr m" by (simp add: parseMetadata_foldl)
  obtain m' where m': "parseMetadata ?known = Inr m'" by (simp add: parseMetadata_foldl)
  have none: "field name m = []"
    if "name \<in> set ossMetadata_fields" and "matched name props = []" for name
    using parseMetadata_field [OF that(1) m] that(2) by simp
  have greatest: "field name m = coerceUTF8 v"
    if "name \<in> set ossMetadata_fields" and "(k, v) \<in> set (matched name props)"
      and "\<forall>(k', v') \<in> set (matched name props). k' < k \<or> (k', v') = (k, v)" for name k v
  proof -
    have "last (sort_key fst (matched name props)) = (k, v)"
      using that(2,3) by (rule last_sort_key_greatest)
    moreover have "matched name props \<noteq> []"
      using that(2) by auto
    ultimately show ?thesis
      using parseMetadata_field [OF that(1) m] by simp
  qed
  have "field name m' = field name m" if "name \<in> set ossMetadata_fields" for name
    using parseMetadata_field [OF that m] parseMetadata_field [OF that m']
    by (simp add: matched_recognized [OF that])
  then have "m' = m" by (intro ossMetadata_fields_eq) simp
  with m m' none greatest show ?thesis by (auto simp: coerceUTF8_valid)
qed
theorem parseMetadata_fields_witness:
  "parseMetadata [(''endpoint'', ''oss.example.com''), (''accessKeyID'', ''id''),
                  (''accessKey'', ''secret''), (''bucket'', ''bkt''), (''region'', ''r1'')] =
     Inr \<lparr>Endpoint = ''oss.example.com'', AccessKeyID = ''id'', AccessKey = ''secret'',
          Bucket = ''bkt''\<rparr>
   \<and> matched ''bucket'' [(''endpoint'', ''oss.example.com''), (''accessKeyID'', ''id''),
                  (''accessKey'', ''secret''), (''bucket'', ''bkt''), (''region'', ''r1'')] =
     [(''bucket'', ''bkt'')]
   \<and> matched ''accessKeyID'' [(''accesskeyid'', ''y''), (''accessKeyID'', ''x'')] =
     [(''accesskeyid'', ''y''), (''accessKeyID'', ''x'')]
   \<and> ''accessKeyID'' < ''accesskeyid''
   \<and> matched ''bucket'' [(''accesskeyid'', ''y''), (''accessKeyID'', ''x'')] = []
   \<and> parseMetadata [(''accesskeyid'', ''y''), (''accessKeyID'', ''x'')] =
     Inr \<lparr>Endpoint = '''', AccessKeyID = ''y'', AccessKey = '''', Bucket = ''''\<rparr>"
proof -
  let ?p = "[(''endpoint'', ''oss.example.com''), (''accessKeyID'', ''id''),
             (''accessKey'', ''secret''), (''bucket'', ''bkt''), (''region'', ''r1'')]"
  let ?q = "[(''accesskeyid'', ''y''), (''accessKeyID'', ''x'')]"
  have mb: "matched ''bucket'' ?p = [(''bucket'', ''bkt'')]"
    by code_simp
  have mq: "matched ''accessKeyID'' ?q = ?q"
    by code_simp
  have lt: "''accessKeyID'' < ''accesskeyid''"
    by code_simp
  have nq: "matched ''bucket'' ?q = []"
    by code_simp
  have ascii: "coerceUTF8 ''bkt'' = ''bkt''" "coerceUTF8 ''y'' = ''y''"
    by (rule coerceUTF8_ascii, simp)+
  from parseMetadata_fields [of ?p] obtain m where
    m: "parseMetadata ?p = Inr m"
    and g: "\<forall>name \<in> set ossMetadata_fields.
          (matched name ?p = [] \<longrightarrow> field name m = [])
        \<and> (\<forall>k v. (k, v) \<in> set (matched name ?p)
                 \<and> (\<forall>(k', v') \<in> set (matched name ?p). k' < k \<or> (k', v') = (k, v))
               \<longrightarrow> field name m = coerceUTF8 v \<and> (ValidString v \<longrightarrow> field name m = v))"
    by blast
  have inb: "''bucket'' \<in> set ossMetadata_fields" and ink: "''accessKeyID'' \<in> set ossMetadata_fields"
    by (simp_all add: ossMetadata_fields_def)
  have "field ''bucket'' m = coerceUTF8 ''bkt''"
    using g [rule_format, OF inb, THEN conjunct2, rule_format, of "''bucket''" "''bkt''"]
    unfolding mb by simp
  then have bucket: "Bucket m = ''bkt''"
    unfolding ascii by (simp add: field_def)
  from parseMetadata_fields [of ?q] obtain n where
    n: "parseMetadata ?q = Inr n"
    and h: "\<forall>name \<in> set ossMetadata_fields.
          (matched name ?q = [] \<longrightarrow> field name n = [])
        \<and> (\<forall>k v. (k, v) \<in> set (matched name ?q)
                 \<and> (\<forall>(k', v') \<in> set (matched name ?q). k' < k \<or> (k', v') = (k, v))
               \<longrightarrow> field name n = coerceUTF8 v \<and> (ValidString v \<longrightarrow> field name n = v))"
    by blast
  have "field ''accessKeyID'' n = coerceUTF8 ''y''"
    using h [rule_format, OF ink, THEN conjunct2, rule_format, of "''accesskeyid''" "''y''"] lt
    unfolding mq by simp
  then have keyid: "AccessKeyID n = ''y''"
    unfolding ascii by (simp add: field_def)
  have "field ''bucket'' n = []"
    using h [rule_format, OF inb, THEN conjunct1] nq by simp
  then have nobucket: "Bucket n = []"
    by (simp add: field_def)
  have ep: "parseMetadata ?p =
     Inr \<lparr>Endpoint = ''oss.example.com'', AccessKeyID = ''id'', AccessKey = ''secret'',
          Bucket = ''bkt''\<rparr>"
    by code_simp
  have eq: "parseMetadata ?q =
     Inr \<lparr>Endpoint = '''', AccessKeyID = ''y'', AccessKey = '''', Bucket = ''''\<rparr>"
    by code_simp
  from m n bucket keyid nobucket ep eq mb mq lt nq show ?thesis
    by (simp only: simp_thms)
qed

text \<open>
  The claim as stated fails twice. The property map of the repository's own test has none
  of the four recognized keys, only capitalized spellings: by the claim these are unknown
  keys to be ignored and every field is empty, but parsing yields the four values (as the
  test asserts). And a map that has the four recognized keys and also the key
  \<open>accesskeyid\<close> does not yield the value of \<open>accessKeyID\<close>: the other spelling is
  decoded later and replaces it.
\<close>

theorem parseMetadata_counterexample:
  "map_of [(''AccessKey'', ''key''), (''Endpoint'', ''endpoint''),
           (''AccessKeyID'', ''accessKeyID''), (''Bucket'', ''test'')] ''endpoint'' = None
   \<and> map_of [(''AccessKey'', ''key''), (''Endpoint'', ''endpoint''),
           (''AccessKeyID'', ''accessKeyID''), (''Bucket'', ''test'')] ''accessKeyID'' = None
   \<and> map_of [(''AccessKey'', ''key''), (''Endpoint'', ''endpoint''),
           (''AccessKeyID'', ''accessKeyID''), (''Bucket'', ''test'')] ''accessKey'' = None
   \<and> map_of [(''AccessKey'', ''key''), (''Endpoint'', ''endpoint''),
           (''AccessKeyID'', ''accessKeyID''), (''Bucket'', ''test'')] ''bucket'' = None
   \<and> parseMetadata [(''AccessKey'', ''key''), (''Endpoint'', ''endpoint''),
           (''AccessKeyID'', ''accessKeyID''), (''Bucket'', ''test'')] =
       Inr \<lparr>Endpoint = ''endpoint'', AccessKeyID = ''accessKeyID'', AccessKey = ''key'',
            Bucket = ''test''\<rparr>
   \<and> map_of [(''endpoint'', ''e''), (''accessKeyID'', ''x''), (''accessKey'', ''k''),
             (''bucket'', ''b''), (''accesskeyid'', ''y'')] ''accessKeyID'' = Some ''x''
   \<and> parseMetadata [(''endpoint'', ''e''), (''accessKeyID'', ''x''), (''accessKey'', ''k''),
             (''bucket'', ''b''), (''accesskeyid'', ''y'')] =
       Inr \<lparr>Endpoint = ''e'', AccessKeyID = ''y'', AccessKey = ''k'', Bucket = ''b''\<rparr>"
  by code_simp

end
